theory Spec2Isabelle
  imports Main
begin

section \<open>The scanner agent of perceptor-scanner (pkg/scanner/scanner.go)\<close>

text \<open>
  The agent polls a coordinator for scan jobs, provisions a scan client on first need,
  runs the scan and reports the outcome. Everything the Go code does besides computing
  a value is made explicit here:
  \<^item> the process environment and the chronological list of observable effects (log
    lines, metrics, HTTP requests, collaborator calls, timer ticks) form the \<open>world\<close>
    that every operation takes and returns;
  \<^item> the network, the JSON codec and the functions of the package that live in other
    files (\<open>downloadScanClient\<close>, \<open>NewImageFacadePuller\<close>, \<open>NewHubScanClient\<close>,
    the \<open>Scan\<close> method) are parameters, collected in the record \<open>collaborators\<close>;
    an operation that may answer differently each time it is called takes the number
    of earlier calls of its kind as first argument;
  \<^item> a Go \<open>error\<close> is a value of the datatype \<open>error\<close>, \<open>nil\<close> is \<open>None\<close>;
  \<^item> the two \<open>for\<close> loops without a bound are \<open>partial_function (option)\<close>, so a
    run that never returns has the value \<open>None\<close>.
\<close>

subsection \<open>Data\<close>

type_synonym bytes = string

text \<open>\<open>time.Duration\<close>: a signed 64-bit count of nanoseconds.\<close>

type_synonym Duration = int

definition wrap64 :: "int \<Rightarrow> int" where
  "wrap64 x = (x + 2 ^ 63) mod 2 ^ 64 - 2 ^ 63"

definition Second :: Duration where
  "Second = 1000000000"

definition requestScanJobPause :: Duration where
  "requestScanJobPause = 20 * Second"

text \<open>
  The fields of \<open>Config\<close> that scanner.go reads (\<open>config.Hub.User\<close> is \<open>Hub_User\<close>, and so
  on). The type is declared in another file of the package; the host of the image
  facade is only reached through its method \<open>GetHost\<close>, a collaborator below.
\<close>

record Config =
  Hub_User :: string
  Hub_PasswordEnvVar :: string
  Hub_Port :: int
  Hub_ClientTimeoutSeconds :: int
  Perceptor_Host :: string
  Perceptor_Port :: int
  ImageFacade_Port :: int

text \<open>The types of \<open>perceptor/pkg/api\<close> that cross the wire.\<close>

record ImageSpec =
  Repository :: string
  Sha :: string
  HubURL :: string
  HubProjectName :: string
  HubProjectVersionName :: string
  HubScanName :: string

datatype NextImage = NextImage (NextImage_ImageSpec: "ImageSpec option")

record FinishedScanClientJob =
  Err :: string
  FinishedJob_ImageSpec :: ImageSpec

text \<open>
  Modelled from the spec: the scan-job descriptor that \<open>NewScanJob\<close> (another file of
  the package) builds "from the ImageSpec's repository, digest, coordinator URL, and
  the three naming fields".
\<close>

record ScanJob =
  Job_Repository :: string
  Job_Sha :: string
  Job_HubURL :: string
  Job_HubProjectName :: string
  Job_HubProjectVersionName :: string
  Job_HubScanName :: string

definition NewScanJob :: "string \<Rightarrow> string \<Rightarrow> string \<Rightarrow> string \<Rightarrow> string \<Rightarrow> string \<Rightarrow> ScanJob" where
  "NewScanJob repository sha hubURL hubProjectName hubProjectVersionName hubScanName =
     \<lparr>Job_Repository = repository, Job_Sha = sha, Job_HubURL = hubURL,
      Job_HubProjectName = hubProjectName,
      Job_HubProjectVersionName = hubProjectVersionName,
      Job_HubScanName = hubScanName\<rparr>"

text \<open>
  Errors. \<open>External m\<close> is an error value handed over by a library or a collaborator,
  known by its message \<open>m\<close>; the other two are built in scanner.go with \<open>fmt.Errorf\<close>.
\<close>

datatype error =
    EnvVarNotSet string
  | StatusCodeError string int
  | External string

text \<open>
  What \<open>http.Client.Post\<close> hands back when the transport worked: the status code, and
  what \<open>ioutil.ReadAll\<close> will get from the body (its bytes, or a read error).
\<close>

record Response =
  StatusCode :: int
  Body :: "string + bytes"

record HttpClient =
  Timeout :: Duration

text \<open>
  The struct \<open>Scanner\<close>. The receive end of the stop channel is modelled by what a
  \<open>select\<close> on it observes: \<open>stop sc n\<close> holds when, at the wait that follows \<open>n\<close>
  timer ticks, the channel is ready before the timer fires.
\<close>

record 'c Scanner =
  scanClient :: "'c option"
  httpClient :: HttpClient
  perceptorHost :: string
  perceptorPort :: int
  config :: Config
  stop :: "nat \<Rightarrow> bool"
  hubPassword :: string

subsection \<open>The world\<close>

text \<open>
  One event per observable effect, in the order the code performs them. A logrus call
  is recorded by its level and message template (the formatted arguments are left
  out); \<open>BodyClose n\<close> closes the body of the response to the \<open>n\<close>-th POST.
\<close>

datatype event =
    LogDebug string
  | LogInfo string
  | LogError string
  | RecordScannerError string
  | RecordHTTPStats string int
  | HttpPost string string bytes
  | BodyClose nat
  | CallDownloadScanClient string string string int Duration
  | CallNewImageFacadePuller string int
  | CallNewHubScanClient string int
  | CallScan ScanJob
  | TimerFired Duration

record world =
  environ :: "string \<rightharpoonup> string"
  events :: "event list"

definition emit :: "event list \<Rightarrow> world \<Rightarrow> world" where
  "emit es w = w\<lparr>events := events w @ es\<rparr>"

text \<open>Projections of a trace: the POSTs, the downloads, the scans, the timer ticks.\<close>

fun post_of :: "event \<Rightarrow> (string \<times> string \<times> bytes) list" where
  "post_of (HttpPost url contentType body) = [(url, contentType, body)]"
| "post_of _ = []"

definition posts :: "event list \<Rightarrow> (string \<times> string \<times> bytes) list" where
  "posts es = concat (map post_of es)"

fun download_of :: "event \<Rightarrow> (string \<times> string \<times> string \<times> int \<times> Duration) list" where
  "download_of (CallDownloadScanClient hubURL user password port timeout) =
     [(hubURL, user, password, port, timeout)]"
| "download_of _ = []"

definition downloads :: "event list \<Rightarrow> (string \<times> string \<times> string \<times> int \<times> Duration) list" where
  "downloads es = concat (map download_of es)"

fun newClient_of :: "event \<Rightarrow> (string \<times> int) list" where
  "newClient_of (CallNewHubScanClient user port) = [(user, port)]"
| "newClient_of _ = []"

definition newClients :: "event list \<Rightarrow> (string \<times> int) list" where
  "newClients es = concat (map newClient_of es)"

fun scan_of :: "event \<Rightarrow> ScanJob list" where
  "scan_of (CallScan job) = [job]"
| "scan_of _ = []"

definition scans :: "event list \<Rightarrow> ScanJob list" where
  "scans es = concat (map scan_of es)"

fun tick_of :: "event \<Rightarrow> Duration list" where
  "tick_of (TimerFired d) = [d]"
| "tick_of _ = []"

definition ticks :: "event list \<Rightarrow> Duration list" where
  "ticks es = concat (map tick_of es)"

fun scannerError_of :: "event \<Rightarrow> string list" where
  "scannerError_of (RecordScannerError reason) = [reason]"
| "scannerError_of _ = []"

definition scannerErrors :: "event list \<Rightarrow> string list" where
  "scannerErrors es = concat (map scannerError_of es)"

fun log_of :: "event \<Rightarrow> event list" where
  "log_of (LogDebug m) = [LogDebug m]"
| "log_of (LogInfo m) = [LogInfo m]"
| "log_of (LogError m) = [LogError m]"
| "log_of _ = []"

definition logs :: "event list \<Rightarrow> event list" where
  "logs es = concat (map log_of es)"

fun httpStat_of :: "event \<Rightarrow> (string \<times> int) list" where
  "httpStat_of (RecordHTTPStats path code) = [(path, code)]"
| "httpStat_of _ = []"

definition httpStats :: "event list \<Rightarrow> (string \<times> int) list" where
  "httpStats es = concat (map httpStat_of es)"

subsection \<open>Collaborators\<close>

text \<open>
  The parts the code calls and does not define: the HTTP transport (\<open>http_Post env n\<close>
  answers the POST that follows \<open>n\<close> earlier ones), \<open>encoding/json\<close>, the two path
  constants of the api package, and the functions of the package outside scanner.go.
  \<open>Scan env n c job\<close> is \<open>None\<close> for a nil error and \<open>Some m\<close> for an error whose
  \<open>Error()\<close> is \<open>m\<close>.
\<close>

record ('i, 'p, 'c) collaborators =
  NextImagePath :: string
  FinishedScanPath :: string
  http_Post :: "nat \<Rightarrow> string \<Rightarrow> string \<Rightarrow> bytes \<Rightarrow> string + Response"
  json_Unmarshal :: "bytes \<Rightarrow> string + NextImage"
  json_Marshal :: "FinishedScanClientJob \<Rightarrow> string + bytes"
  downloadScanClient :: "nat \<Rightarrow> string \<Rightarrow> string \<Rightarrow> string \<Rightarrow> int \<Rightarrow> Duration \<Rightarrow> string + 'i"
  ImageFacade_GetHost :: "Config \<Rightarrow> string"
  NewImageFacadePuller :: "string \<Rightarrow> int \<Rightarrow> 'p"
  NewHubScanClient :: "nat \<Rightarrow> string \<Rightarrow> int \<Rightarrow> 'i \<Rightarrow> 'p \<Rightarrow> string + 'c"
  Scan :: "nat \<Rightarrow> 'c \<Rightarrow> ScanJob \<Rightarrow> string option"

subsection \<open>The standard library: environment and formatting\<close>

text \<open>
  \<open>os.LookupEnv\<close> and \<open>os.Setenv\<close> on Unix. \<open>Setenv\<close> refuses an empty key, a key
  with \<open>=\<close> or NUL, and a value with NUL (\<open>EINVAL\<close>).
\<close>

definition os_LookupEnv :: "(string \<rightharpoonup> string) \<Rightarrow> string \<Rightarrow> string option" where
  "os_LookupEnv env key = (if key = [] then None else env key)"

definition os_Setenv :: "string \<Rightarrow> string \<Rightarrow> (string \<rightharpoonup> string) \<Rightarrow> error + (string \<rightharpoonup> string)" where
  "os_Setenv key v env =
     (if key = [] \<or> CHR ''='' \<in> set key \<or> CHR 0x00 \<in> set key \<or> CHR 0x00 \<in> set v
      then Inl (External ''setenv: invalid argument'')
      else Inr (env(key \<mapsto> v)))"

text \<open>\<open>%d\<close> of \<open>fmt.Sprintf\<close>: an integer in decimal.\<close>

function dec_nat :: "nat \<Rightarrow> string" where
  "dec_nat n = (if n < 10 then [char_of (48 + n)] else dec_nat (n div 10) @ [char_of (48 + n mod 10)])"
  by pat_completeness auto
termination
  by (relation "measure (\<lambda>n. n)") auto

declare dec_nat.simps [simp del]

definition itoa :: "int \<Rightarrow> string" where
  "itoa i = (if i < 0 then CHR ''-'' # dec_nat (nat (- i)) else dec_nat (nat i))"

subsection \<open>NewScanner\<close>

definition NewScanner :: "Config \<Rightarrow> (nat \<Rightarrow> bool) \<Rightarrow> world \<Rightarrow> (error + 'c Scanner) \<times> world" where
  "NewScanner cfg stopCh w0 =
     (let w = emit [LogInfo ''instantiating Scanner with config %+v''] w0 in
      case os_LookupEnv (environ w) (Hub_PasswordEnvVar cfg) of
        None \<Rightarrow> (Inl (EnvVarNotSet (Hub_PasswordEnvVar cfg)), w)
      | Some hubPw \<Rightarrow>
          (case os_Setenv ''BD_HUB_PASSWORD'' hubPw (environ w) of
             Inl err \<Rightarrow>
               (Inl err,
                emit [LogError ''unable to set BD_HUB_PASSWORD environment variable: %s''] w)
           | Inr env' \<Rightarrow>
               (Inr \<lparr>scanClient = None,
                     httpClient = \<lparr>Timeout = 5 * Second\<rparr>,
                     perceptorHost = Perceptor_Host cfg,
                     perceptorPort = Perceptor_Port cfg,
                     config = cfg,
                     stop = stopCh,
                     hubPassword = hubPw\<rparr>,
                w\<lparr>environ := env'\<rparr>)))"

subsection \<open>buildURL, requestScanJob\<close>

definition buildURL :: "'c Scanner \<Rightarrow> string \<Rightarrow> string" where
  "buildURL sc path =
     ''http://'' @ perceptorHost sc @ '':'' @ itoa (perceptorPort sc) @ ''/'' @ path"

definition requestScanJob ::
  "('i, 'p, 'c) collaborators \<Rightarrow> 'c Scanner \<Rightarrow> world \<Rightarrow> (error + ImageSpec option) \<times> world" where
  "requestScanJob env sc w0 =
     (let nextImageURL = buildURL sc (NextImagePath env);
          n = length (posts (events w0));
          w = emit [HttpPost nextImageURL [] []] w0
      in case http_Post env n nextImageURL [] [] of
        Inl err \<Rightarrow>
          (Inl (External err),
           emit [RecordScannerError ''unable to POST get next image'',
                 LogError ''unable to POST to %s: %s''] w)
      | Inr resp \<Rightarrow>
          (let w1 = emit [RecordHTTPStats (NextImagePath env) (StatusCode resp)] w in
           if StatusCode resp \<noteq> 200
           then (Inl (StatusCodeError nextImageURL (StatusCode resp)),
                 emit [LogError ''http POST request to %s failed with status code %d''] w1)
           else (case Body resp of
               Inl err \<Rightarrow>
                 (Inl (External err),
                  emit [RecordScannerError ''unable to read response body'',
                        LogError ''unable to read response body from %s: %s'',
                        BodyClose n] w1)
             | Inr bodyBytes \<Rightarrow>
                 (case json_Unmarshal env bodyBytes of
                    Inl err \<Rightarrow>
                      (Inl (External err),
                       emit [RecordScannerError ''unmarshaling JSON body failed'',
                             LogError ''unmarshaling JSON body bytes %s failed for URL %s: %s'',
                             BodyClose n] w1)
                  | Inr nextImage \<Rightarrow>
                      (Inr (NextImage_ImageSpec nextImage),
                       emit [LogDebug ''http POST request to %s succeeded, got image %s'',
                             BodyClose n] w1)))))"

subsection \<open>finishScan\<close>

text \<open>
  The \<open>for\<close> loop of \<open>finishScan\<close>. \<open>deferred\<close> holds the responses whose
  \<open>Body.Close\<close> has been deferred, latest first; they run when the function returns.
\<close>

partial_function (option) finishScan_loop ::
  "('i, 'p, 'c) collaborators \<Rightarrow> string \<Rightarrow> bytes \<Rightarrow> nat list \<Rightarrow> world \<Rightarrow> world option" where
  "finishScan_loop env finishedScanURL jsonBytes deferred w0 =
     (let n = length (posts (events w0));
          w = emit [HttpPost finishedScanURL ''application/json'' jsonBytes] w0
      in case http_Post env n finishedScanURL ''application/json'' jsonBytes of
        Inl err \<Rightarrow>
          finishScan_loop env finishedScanURL jsonBytes deferred
            (emit [RecordScannerError ''unable to POST finished job'',
                   LogError ''unable to POST to %s: %s''] w)
      | Inr resp \<Rightarrow>
          (let w1 = emit [RecordHTTPStats (FinishedScanPath env) (StatusCode resp)] w in
           if StatusCode resp \<noteq> 200
           then finishScan_loop env finishedScanURL jsonBytes (n # deferred)
                  (emit [LogError ''POST to %s failed with status code %d''] w1)
           else Some (emit (LogInfo ''POST to %s succeeded'' # map BodyClose (n # deferred)) w1)))"

definition finishScan ::
  "('i, 'p, 'c) collaborators \<Rightarrow> 'c Scanner \<Rightarrow> FinishedScanClientJob \<Rightarrow> world
     \<Rightarrow> (error option \<times> world) option" where
  "finishScan env sc results w =
     (let finishedScanURL = buildURL sc (FinishedScanPath env) in
      case json_Marshal env results of
        Inl err \<Rightarrow>
          Some (Some (External err),
                emit [RecordScannerError ''unable to marshal json for finished job'',
                      LogError ''unable to marshal json for finished job: %s''] w)
      | Inr jsonBytes \<Rightarrow>
          map_option (Pair None)
            (finishScan_loop env finishedScanURL jsonBytes []
               (emit [LogDebug ''about to send over json text for finishing a job: %s''] w)))"

subsection \<open>downloadScanner\<close>

definition downloadScanner ::
  "('i, 'p, 'c) collaborators \<Rightarrow> 'c Scanner \<Rightarrow> string \<Rightarrow> world \<Rightarrow> (error + 'c) \<times> world" where
  "downloadScanner env sc hubURL w0 =
     (let cfg = config sc;
          timeout = wrap64 (wrap64 (Hub_ClientTimeoutSeconds cfg) * Second);
          w = emit [CallDownloadScanClient hubURL (Hub_User cfg) (hubPassword sc)
                      (Hub_Port cfg) timeout] w0
      in case downloadScanClient env (length (downloads (events w0))) hubURL (Hub_User cfg)
                (hubPassword sc) (Hub_Port cfg) timeout of
        Inl err \<Rightarrow> (Inl (External err), emit [LogError ''unable to download scan client: %s''] w)
      | Inr scanClientInfo \<Rightarrow>
          (let host = ImageFacade_GetHost env cfg;
               imagePuller = NewImageFacadePuller env host (ImageFacade_Port cfg);
               w1 = emit [LogInfo ''instantiating scanner with hub %s, user %s'',
                          CallNewImageFacadePuller host (ImageFacade_Port cfg),
                          CallNewHubScanClient (Hub_User cfg) (Hub_Port cfg)] w
           in case NewHubScanClient env (length (newClients (events w0))) (Hub_User cfg)
                     (Hub_Port cfg) scanClientInfo imagePuller of
             Inl err \<Rightarrow>
               (Inl (External err),
                emit [LogError ''unable to instantiate hub scan client: %s''] w1)
           | Inr client \<Rightarrow> (Inr client, w1)))"

subsection \<open>requestAndRunScanJob\<close>

text \<open>
  The report of lines 151 to 156: the error string is empty for a nil error and
  \<open>err.Error()\<close> otherwise; the image is the one received.
\<close>

definition finishedJobFor :: "ImageSpec \<Rightarrow> string option \<Rightarrow> FinishedScanClientJob" where
  "finishedJobFor img scanErr =
     \<lparr>Err = (case scanErr of None \<Rightarrow> [] | Some m \<Rightarrow> m), FinishedJob_ImageSpec = img\<rparr>"

text \<open>Lines 149 to 162: build the job, scan, report.\<close>

definition runScanJob ::
  "('i, 'p, 'c) collaborators \<Rightarrow> 'c Scanner \<Rightarrow> 'c \<Rightarrow> ImageSpec \<Rightarrow> world
     \<Rightarrow> (error option \<times> world) option" where
  "runScanJob env sc client img w0 =
     (let job = NewScanJob (Repository img) (Sha img) (HubURL img) (HubProjectName img)
                  (HubProjectVersionName img) (HubScanName img);
          scanErr = Scan env (length (scans (events w0))) client job;
          finishedJob = finishedJobFor img scanErr;
          w = emit [CallScan job, LogInfo ''about to finish job, going to send over %+v''] w0
      in case finishScan env sc finishedJob w of
        None \<Rightarrow> None
      | Some (None, w1) \<Rightarrow> Some (None, w1)
      | Some (Some err, w1) \<Rightarrow>
          Some (Some err, emit [LogError ''unable to finish scan job: %s''] w1))"

definition requestAndRunScanJob ::
  "('i, 'p, 'c) collaborators \<Rightarrow> 'c Scanner \<Rightarrow> world
     \<Rightarrow> (error option \<times> 'c Scanner \<times> world) option" where
  "requestAndRunScanJob env sc w0 =
     (case requestScanJob env sc (emit [LogDebug ''requesting scan job''] w0) of
        (Inl err, w) \<Rightarrow>
          Some (Some err, sc, emit [LogError ''unable to request scan job: %s''] w)
      | (Inr None, w) \<Rightarrow> Some (None, sc, emit [LogDebug ''requested scan job, got nil''] w)
      | (Inr (Some img), w) \<Rightarrow>
          (let w1 = emit [LogInfo ''processing scan job %+v''] w in
           case scanClient sc of
             Some client \<Rightarrow>
               map_option (\<lambda>(r, w2). (r, sc, w2)) (runScanJob env sc client img w1)
           | None \<Rightarrow>
               (case downloadScanner env sc (HubURL img) w1 of
                  (Inl err, w2) \<Rightarrow>
                    Some (Some err, sc,
                          emit [LogError ''unable to download scan client from %s: %s''] w2)
                | (Inr client, w2) \<Rightarrow>
                    (let sc' = sc\<lparr>scanClient := Some client\<rparr> in
                     map_option (\<lambda>(r, w3). (r, sc', w3))
                       (runScanJob env sc' client img w2)))))"

subsection \<open>StartRequestingScanJobs\<close>

text \<open>
  The goroutine's loop: each round waits for the stop channel or the timer, whichever
  is ready first. On stop it returns; on the timer it runs one cycle and logs its error.
\<close>

partial_function (option) requestLoop ::
  "('i, 'p, 'c) collaborators \<Rightarrow> 'c Scanner \<Rightarrow> world \<Rightarrow> ('c Scanner \<times> world) option" where
  "requestLoop env sc w =
     (if stop sc (length (ticks (events w))) then Some (sc, w)
      else case requestAndRunScanJob env sc (emit [TimerFired requestScanJobPause] w) of
        None \<Rightarrow> None
      | Some (None, sc', w') \<Rightarrow> requestLoop env sc' w'
      | Some (Some err, sc', w') \<Rightarrow>
          requestLoop env sc' (emit [LogError ''unable to run requestAndRunScanJob: %s''] w'))"


subsection \<open>Predicates and example inputs used in the statements\<close>

text \<open>
  A value of the process environment is a C string: it holds no NUL byte.
\<close>

definition nul_free :: "string \<Rightarrow> bool" where
  "nul_free s = (CHR 0x00 \<notin> set s)"

text \<open>
  \<open>accepted env url body n\<close>: the coordinator answers 200 to the report POST that
  follows \<open>n\<close> earlier POSTs.
\<close>

definition accepted :: "('i, 'p, 'c) collaborators \<Rightarrow> string \<Rightarrow> bytes \<Rightarrow> nat \<Rightarrow> bool" where
  "accepted env url body n =
     (case http_Post env n url ''application/json'' body of
        Inl err \<Rightarrow> False
      | Inr resp \<Rightarrow> StatusCode resp = 200)"

definition exampleConfig :: Config where
  "exampleConfig =
     \<lparr>Hub_User = ''sysadmin'', Hub_PasswordEnvVar = ''PCP_HUBUSERPASSWORD'', Hub_Port = 443,
      Hub_ClientTimeoutSeconds = 120, Perceptor_Host = ''perceptor'', Perceptor_Port = 3001,
      ImageFacade_Port = 3004\<rparr>"

definition exampleWorld :: world where
  "exampleWorld = \<lparr>environ = [''PCP_HUBUSERPASSWORD'' \<mapsto> ''blackduck''], events = []\<rparr>"

definition exampleImage :: ImageSpec where
  "exampleImage =
     \<lparr>Repository = ''r'', Sha = ''s1'', HubURL = ''http://hub'', HubProjectName = ''p'',
      HubProjectVersionName = ''v1'', HubScanName = ''n1''\<rparr>"

definition exampleScanner :: "nat Scanner" where
  "exampleScanner =
     \<lparr>scanClient = None, httpClient = \<lparr>Timeout = 5 * Second\<rparr>,
      perceptorHost = ''perceptor'', perceptorPort = 3001, config = exampleConfig,
      stop = (\<lambda>n. False), hubPassword = ''blackduck''\<rparr>"

text \<open>
  Example collaborators, for the concrete runs below. The coordinator answers the
  \<open>n\<close>-th POST with \<open>responses n\<close>, the \<open>n\<close>-th download with \<open>tools n\<close>, the
  \<open>n\<close>-th scan with \<open>outcomes n\<close>. The codec is a stand-in for \<open>encoding/json\<close>:
  the body \<open>null\<close> decodes to a NextImage without ImageSpec, the body \<open>job\<close> to one
  with \<open>exampleImage\<close>, anything else is malformed; a report is encoded as its error
  string, a bar and the digest of its image.
\<close>

definition exampleEnv ::
  "(nat \<Rightarrow> string + Response) \<Rightarrow> (nat \<Rightarrow> string + nat) \<Rightarrow> (nat \<Rightarrow> string option)
     \<Rightarrow> (nat, nat, nat) collaborators" where
  "exampleEnv responses tools outcomes =
     \<lparr>NextImagePath = ''nextimage'',
      FinishedScanPath = ''finishedscan'',
      http_Post = (\<lambda>n url contentType body. responses n),
      json_Unmarshal = (\<lambda>b. if b = ''null'' then Inr (NextImage None)
                            else if b = ''job'' then Inr (NextImage (Some exampleImage))
                            else Inl ''invalid character''),
      json_Marshal = (\<lambda>r. Inr (Err r @ ''|'' @ Sha (FinishedJob_ImageSpec r))),
      downloadScanClient = (\<lambda>n hubURL user password port timeout. tools n),
      ImageFacade_GetHost = (\<lambda>cfg. ''localhost''),
      NewImageFacadePuller = (\<lambda>host port. 0),
      NewHubScanClient = (\<lambda>n user port info puller. Inr info),
      Scan = (\<lambda>n client job. outcomes n)\<rparr>"

definition status :: "int \<Rightarrow> bytes \<Rightarrow> string + Response" where
  "status code body = Inr \<lparr>StatusCode = code, Body = Inr body\<rparr>"

text \<open>
  \<open>quiet es\<close>: the events hold no timer tick, no scan, no download and no
  construction of a scan client.
\<close>

definition quiet :: "event list \<Rightarrow> bool" where
  "quiet es \<longleftrightarrow> ticks es = [] \<and> scans es = [] \<and> downloads es = [] \<and> newClients es = []"

text \<open>The password argument of a recorded call of \<open>downloadScanClient\<close>.\<close>

definition download_password :: "string \<times> string \<times> string \<times> int \<times> Duration \<Rightarrow> string" where
  "download_password d = fst (snd (snd d))"

section \<open>Properties\<close>

subsection \<open>Traces\<close>

lemma posts_simps [simp]:
  "posts [] = []"
  "posts (e # es) = post_of e @ posts es"
  "posts (xs @ ys) = posts xs @ posts ys"
  by (simp_all add: posts_def)

lemma downloads_simps [simp]:
  "downloads [] = []"
  "downloads (e # es) = download_of e @ downloads es"
  "downloads (xs @ ys) = downloads xs @ downloads ys"
  by (simp_all add: downloads_def)

lemma newClients_simps [simp]:
  "newClients [] = []"
  "newClients (e # es) = newClient_of e @ newClients es"
  "newClients (xs @ ys) = newClients xs @ newClients ys"
  by (simp_all add: newClients_def)

lemma scans_simps [simp]:
  "scans [] = []"
  "scans (e # es) = scan_of e @ scans es"
  "scans (xs @ ys) = scans xs @ scans ys"
  by (simp_all add: scans_def)

lemma ticks_simps [simp]:
  "ticks [] = []"
  "ticks (e # es) = tick_of e @ ticks es"
  "ticks (xs @ ys) = ticks xs @ ticks ys"
  by (simp_all add: ticks_def)

lemma scannerErrors_simps [simp]:
  "scannerErrors [] = []"
  "scannerErrors (e # es) = scannerError_of e @ scannerErrors es"
  "scannerErrors (xs @ ys) = scannerErrors xs @ scannerErrors ys"
  by (simp_all add: scannerErrors_def)

lemma logs_simps [simp]:
  "logs [] = []"
  "logs (e # es) = log_of e @ logs es"
  "logs (xs @ ys) = logs xs @ logs ys"
  by (simp_all add: logs_def)

lemma httpStats_simps [simp]:
  "httpStats [] = []"
  "httpStats (e # es) = httpStat_of e @ httpStats es"
  "httpStats (xs @ ys) = httpStats xs @ httpStats ys"
  by (simp_all add: httpStats_def)

lemma events_emit [simp]: "events (emit es w) = events w @ es"
  by (simp add: emit_def)

lemma environ_emit [simp]: "environ (emit es w) = environ w"
  by (simp add: emit_def)

lemma emit_emit [simp]: "emit es2 (emit es1 w) = emit (es1 @ es2) w"
  by (simp add: emit_def)

lemma emit_Nil [simp]: "emit [] w = w"
  by (simp add: emit_def)

lemma posts_BodyClose [simp]: "posts (map BodyClose ns) = []"
  by (induction ns) simp_all
lemma ticks_BodyClose [simp]: "ticks (map BodyClose ns) = []"
  by (induction ns) simp_all
lemma scans_BodyClose [simp]: "scans (map BodyClose ns) = []"
  by (induction ns) simp_all
lemma downloads_BodyClose [simp]: "downloads (map BodyClose ns) = []"
  by (induction ns) simp_all
lemma newClients_BodyClose [simp]: "newClients (map BodyClose ns) = []"
  by (induction ns) simp_all

lemma quiet_simps [simp]:
  "quiet []"
  "quiet (xs @ ys) \<longleftrightarrow> quiet xs \<and> quiet ys"
  "quiet (map BodyClose ns)"
  by (auto simp: quiet_def)

lemma quiet_Cons [simp]:
  "quiet (e # es) \<longleftrightarrow> tick_of e = [] \<and> scan_of e = [] \<and> download_of e = [] \<and> newClient_of e = [] \<and> quiet es"
  by (auto simp: quiet_def)

subsection \<open>The example inputs\<close>

lemma exampleEnv_simps [simp]:
  "NextImagePath (exampleEnv r t out) = ''nextimage''"
  "FinishedScanPath (exampleEnv r t out) = ''finishedscan''"
  "http_Post (exampleEnv r t out) n url ct body = r n"
  "json_Unmarshal (exampleEnv r t out) b =
     (if b = ''null'' then Inr (NextImage None)
      else if b = ''job'' then Inr (NextImage (Some exampleImage))
      else Inl ''invalid character'')"
  "json_Marshal (exampleEnv r t out) rep = Inr (Err rep @ ''|'' @ Sha (FinishedJob_ImageSpec rep))"
  "downloadScanClient (exampleEnv r t out) n hubURL user password port timeout = t n"
  "ImageFacade_GetHost (exampleEnv r t out) cfg = ''localhost''"
  "NewImageFacadePuller (exampleEnv r t out) host port = 0"
  "NewHubScanClient (exampleEnv r t out) n user port info puller = Inr info"
  "Scan (exampleEnv r t out) n client job = out n"
  by (simp_all add: exampleEnv_def)

lemma exampleWorld_simps [simp]:
  "events exampleWorld = []"
  "environ exampleWorld = [''PCP_HUBUSERPASSWORD'' \<mapsto> ''blackduck'']"
  by (simp_all add: exampleWorld_def)

lemma exampleScanner_simps [simp]:
  "scanClient exampleScanner = None"
  "stop exampleScanner n = False"
  "hubPassword exampleScanner = ''blackduck''"
  "config exampleScanner = exampleConfig"
  by (simp_all add: exampleScanner_def)

subsection \<open>Construction\<close>

lemma os_Setenv_ok:
  "nul_free v \<Longrightarrow> os_Setenv ''BD_HUB_PASSWORD'' v env = Inr (env(''BD_HUB_PASSWORD'' \<mapsto> v))"
  by (simp add: os_Setenv_def nul_free_def)

text \<open>
  C8. On a process environment whose value for the credential variable (when there is
  one) holds no NUL byte, as every value of a Unix environment does, \<open>NewScanner\<close>
  returns an error and no Scanner exactly when \<open>os.LookupEnv\<close> does not find the
  variable named by \<open>config.Hub.PasswordEnvVar\<close>. When the variable is found, its
  value is stored in the Scanner, written to \<open>BD_HUB_PASSWORD\<close>, and the HTTP client
  of the Scanner has a timeout of five seconds.
\<close>

theorem NewScanner_credential:
  fixes cfg :: Config and stopCh :: "nat \<Rightarrow> bool" and w :: world
  assumes "case os_LookupEnv (environ w) (Hub_PasswordEnvVar cfg) of
             None \<Rightarrow> True | Some v \<Rightarrow> nul_free v"
  shows "((\<exists>err w'. (NewScanner cfg stopCh w :: (error + 'c Scanner) \<times> world) = (Inl err, w'))
            \<longleftrightarrow> os_LookupEnv (environ w) (Hub_PasswordEnvVar cfg) = None)
       \<and> (\<forall>v. os_LookupEnv (environ w) (Hub_PasswordEnvVar cfg) = Some v \<longrightarrow>
            (\<exists>sc w'. (NewScanner cfg stopCh w :: (error + 'c Scanner) \<times> world) = (Inr sc, w')
               \<and> hubPassword sc = v
               \<and> Timeout (httpClient sc) = 5 * Second
               \<and> Timeout (httpClient sc) = 5000000000
               \<and> environ w' = (environ w)(''BD_HUB_PASSWORD'' \<mapsto> v)))"
  using assms
  by (auto simp: NewScanner_def Let_def os_Setenv_ok Second_def split: option.splits)

theorem NewScanner_credential_witness:
  "os_LookupEnv (environ exampleWorld) (Hub_PasswordEnvVar exampleConfig) = Some ''blackduck''
   \<and> nul_free ''blackduck''
   \<and> (\<exists>sc w'. (NewScanner exampleConfig (\<lambda>n. False) exampleWorld :: (error + nat Scanner) \<times> world)
                 = (Inr sc, w')
         \<and> hubPassword sc = ''blackduck''
         \<and> Timeout (httpClient sc) = 5000000000
         \<and> environ w' ''BD_HUB_PASSWORD'' = Some ''blackduck'')"
proof -
  have found: "os_LookupEnv (environ exampleWorld) (Hub_PasswordEnvVar exampleConfig) = Some ''blackduck''"
    by (simp add: os_LookupEnv_def exampleWorld_def exampleConfig_def)
  have ok: "nul_free ''blackduck''"
    by (simp add: nul_free_def)
  have pre: "case os_LookupEnv (environ exampleWorld) (Hub_PasswordEnvVar exampleConfig) of
               None \<Rightarrow> True | Some v \<Rightarrow> nul_free v"
    using found ok by simp
  from NewScanner_credential [OF pre, of "\<lambda>n. False", where ?'c = nat] found
  obtain sc w' where
    "(NewScanner exampleConfig (\<lambda>n. False) exampleWorld :: (error + nat Scanner) \<times> world) = (Inr sc, w')"
    "hubPassword sc = ''blackduck''" "Timeout (httpClient sc) = 5000000000"
    "environ w' = (environ exampleWorld)(''BD_HUB_PASSWORD'' \<mapsto> ''blackduck'')"
    by blast
  then show ?thesis using found ok by auto
qed

subsection \<open>The report loop\<close>

lemma finishScan_loop_step:
  fixes env :: "('i, 'p, 'c) collaborators"
  assumes "\<not> accepted env url b (length (posts (events w)))"
  shows "\<exists>es0 d'. finishScan_loop env url b d w = finishScan_loop env url b d' (emit es0 w)
           \<and> posts es0 = [(url, ''application/json'', b)] \<and> quiet es0"
proof (cases "http_Post env (length (posts (events w))) url ''application/json'' b")
  case (Inl err)
  then have "finishScan_loop env url b d w = finishScan_loop env url b d
      (emit [HttpPost url ''application/json'' b, RecordScannerError ''unable to POST finished job'',
             LogError ''unable to POST to %s: %s''] w)"
    by (subst finishScan_loop.simps) (simp add: Let_def)
  then show ?thesis
    by (intro exI conjI, assumption) simp_all
next
  case (Inr resp)
  with assms have "StatusCode resp \<noteq> 200"
    by (simp add: accepted_def)
  with Inr have "finishScan_loop env url b d w =
      finishScan_loop env url b (length (posts (events w)) # d)
        (emit [HttpPost url ''application/json'' b,
               RecordHTTPStats (FinishedScanPath env) (StatusCode resp),
               LogError ''POST to %s failed with status code %d''] w)"
    by (subst finishScan_loop.simps) (simp add: Let_def)
  then show ?thesis
    by (intro exI conjI, assumption) simp_all
qed

lemma finishScan_loop_done:
  fixes env :: "('i, 'p, 'c) collaborators"
  assumes "accepted env url b (length (posts (events w)))"
  shows "\<exists>es. finishScan_loop env url b d w = Some (emit es w)
           \<and> posts es = [(url, ''application/json'', b)] \<and> quiet es"
proof -
  from assms obtain resp where
    r: "http_Post env (length (posts (events w))) url ''application/json'' b = Inr resp"
    and c: "StatusCode resp = 200"
    by (auto simp: accepted_def split: sum.splits)
  have "finishScan_loop env url b d w =
      Some (emit ([HttpPost url ''application/json'' b,
                   RecordHTTPStats (FinishedScanPath env) (StatusCode resp),
                   LogInfo ''POST to %s succeeded''] @ map BodyClose (length (posts (events w)) # d)) w)"
    using r c by (subst finishScan_loop.simps) (simp add: Let_def)
  then show ?thesis
    by (intro exI conjI, assumption) simp_all
qed

lemma finishScan_loop_first_200:
  fixes env :: "('i, 'p, 'c) collaborators"
  assumes "accepted env url b (length (posts (events w)) + k)"
    and "\<forall>j<k. \<not> accepted env url b (length (posts (events w)) + j)"
  shows "\<exists>es. finishScan_loop env url b d w = Some (emit es w)
           \<and> posts es = replicate (Suc k) (url, ''application/json'', b) \<and> quiet es"
  using assms
proof (induction k arbitrary: w d)
  case 0
  then show ?case using finishScan_loop_done [of env url b w d] by simp
next
  case (Suc k)
  from Suc.prems(2) have "\<not> accepted env url b (length (posts (events w)))"
    by (metis add.right_neutral zero_less_Suc)
  from finishScan_loop_step [OF this, of d] obtain es0 d' where
    step: "finishScan_loop env url b d w = finishScan_loop env url b d' (emit es0 w)"
    and p0: "posts es0 = [(url, ''application/json'', b)]" and q0: "quiet es0"
    by blast
  have n: "length (posts (events (emit es0 w))) = Suc (length (posts (events w)))"
    using p0 by simp
  have a: "accepted env url b (length (posts (events (emit es0 w))) + k)"
    using Suc.prems(1) n by simp
  have b: "\<forall>j<k. \<not> accepted env url b (length (posts (events (emit es0 w))) + j)"
  proof (intro allI impI)
    fix j assume "j < k"
    then have "Suc j < Suc k" by simp
    with Suc.prems(2) have "\<not> accepted env url b (length (posts (events w)) + Suc j)" by blast
    then show "\<not> accepted env url b (length (posts (events (emit es0 w))) + j)"
      using n by simp
  qed
  from Suc.IH [OF a b, of d'] obtain es where
    r: "finishScan_loop env url b d' (emit es0 w) = Some (emit es (emit es0 w))"
    and p: "posts es = replicate (Suc k) (url, ''application/json'', b)" and q: "quiet es"
    by blast
  have "finishScan_loop env url b d w = Some (emit (es0 @ es) w)"
    using step r by simp
  moreover have "posts (es0 @ es) = replicate (Suc (Suc k)) (url, ''application/json'', b)"
    using p0 p by simp
  moreover have "quiet (es0 @ es)" using q0 q by simp
  ultimately show ?case by blast
qed

lemma finishScan_loop_returns_accepted:
  fixes env :: "('i, 'p, 'c) collaborators"
  assumes "finishScan_loop env url b d w = Some w'"
  shows "\<exists>k. accepted env url b (length (posts (events w)) + k)"
  using assms
proof (induction rule: finishScan_loop.raw_induct [rotated 1, consumes 1, case_names step])
  case (step loop env url b d w w')
  show ?case
  proof (cases "accepted env url b (length (posts (events w)))")
    case True
    then show ?thesis by (metis add.right_neutral)
  next
    case False
    have "\<exists>d' es0. loop env url b d' (emit es0 w) = Some w' \<and> posts es0 = [(url, ''application/json'', b)]"
    proof (cases "http_Post env (length (posts (events w))) url ''application/json'' b")
      case (Inl err)
      with step(2) have "loop env url b d
          (emit [HttpPost url ''application/json'' b,
                 RecordScannerError ''unable to POST finished job'',
                 LogError ''unable to POST to %s: %s''] w) = Some w'"
        by (simp add: Let_def)
      then show ?thesis
        by (intro exI conjI, assumption) simp
    next
      case (Inr resp)
      with False have "StatusCode resp \<noteq> 200" by (simp add: accepted_def)
      with Inr step(2) have "loop env url b (length (posts (events w)) # d)
          (emit [HttpPost url ''application/json'' b,
                 RecordHTTPStats (FinishedScanPath env) (StatusCode resp),
                 LogError ''POST to %s failed with status code %d''] w) = Some w'"
        by (simp add: Let_def)
      then show ?thesis
        by (intro exI conjI, assumption) simp
    qed
    then obtain d' es0 where l: "loop env url b d' (emit es0 w) = Some w'"
      and p0: "posts es0 = [(url, ''application/json'', b)]" by blast
    from step(1) [OF l] obtain k where "accepted env url b (length (posts (events (emit es0 w))) + k)"
      by blast
    then have "accepted env url b (length (posts (events w)) + Suc k)"
      using p0 by simp
    then show ?thesis by blast
  qed
qed

subsection \<open>Requesting the next job\<close>

text \<open>
  C6. When the coordinator answers the next-job request with 200 and a body that decodes
  to a NextImage without ImageSpec, \<open>requestScanJob\<close> returns the empty result and no
  error, and records no error metric; the cycle returns without error, with the
  Scanner unchanged, having run no scan and no download and sent no POST but the
  request itself.
\<close>

theorem no_work_is_not_an_error:
  fixes env :: "('i, 'p, 'c) collaborators"
  assumes "http_Post env (length (posts (events w))) (buildURL sc (NextImagePath env)) [] [] = Inr resp"
    and "StatusCode resp = 200"
    and "Body resp = Inr bodyBytes"
    and "json_Unmarshal env bodyBytes = Inr nextImage"
    and "NextImage_ImageSpec nextImage = None"
  shows "(\<exists>w1. requestScanJob env sc w = (Inr None, w1)
            \<and> scannerErrors (events w1) = scannerErrors (events w))
       \<and> (\<exists>w'. requestAndRunScanJob env sc w = Some (None, sc, w')
            \<and> scans (events w') = scans (events w)
            \<and> downloads (events w') = downloads (events w)
            \<and> scannerErrors (events w') = scannerErrors (events w)
            \<and> posts (events w') = posts (events w) @ [(buildURL sc (NextImagePath env), [], [])])"
  using assms
  by (simp add: requestScanJob_def requestAndRunScanJob_def Let_def)

theorem no_work_is_not_an_error_witness:
  "\<exists>w'. requestAndRunScanJob (exampleEnv (\<lambda>n. status 200 ''null'') (\<lambda>n. Inr n) (\<lambda>n. None))
            exampleScanner exampleWorld = Some (None, exampleScanner, w')
      \<and> scans (events w') = []
      \<and> posts (events w') = [(buildURL exampleScanner ''nextimage'', [], [])]"
  using no_work_is_not_an_error [of "exampleEnv (\<lambda>n. status 200 ''null'') (\<lambda>n. Inr n) (\<lambda>n. None)"
      exampleWorld exampleScanner "\<lparr>StatusCode = 200, Body = Inr ''null''\<rparr>" "''null''" "NextImage None"]
  by (auto simp: status_def)

text \<open>
  C9. When the coordinator answers the next-job request with 200 and the body cannot be
  read, \<open>requestScanJob\<close> returns the read error, records the error metric
  \<open>unable to read response body\<close> and logs; its result does not depend on the JSON
  decoder, which is not called; the cycle returns that error with the Scanner
  unchanged, having run no scan and no download and sent no POST but the request.
\<close>

theorem unreadable_body_fails_request:
  fixes env :: "('i, 'p, 'c) collaborators"
  assumes "http_Post env (length (posts (events w))) (buildURL sc (NextImagePath env)) [] [] = Inr resp"
    and "StatusCode resp = 200"
    and "Body resp = Inl readErr"
  shows "(\<exists>w1. requestScanJob env sc w = (Inl (External readErr), w1)
            \<and> scannerErrors (events w1) = scannerErrors (events w) @ [''unable to read response body'']
            \<and> logs (events w1) = logs (events w) @ [LogError ''unable to read response body from %s: %s''])
       \<and> requestScanJob (env\<lparr>json_Unmarshal := decode\<rparr>) sc w = requestScanJob env sc w
       \<and> (\<exists>w'. requestAndRunScanJob env sc w = Some (Some (External readErr), sc, w')
            \<and> scans (events w') = scans (events w)
            \<and> downloads (events w') = downloads (events w)
            \<and> posts (events w') = posts (events w) @ [(buildURL sc (NextImagePath env), [], [])])"
  using assms
  by (simp add: requestScanJob_def requestAndRunScanJob_def Let_def)

theorem unreadable_body_fails_request_witness:
  "\<exists>w'. requestAndRunScanJob
            (exampleEnv (\<lambda>n. Inr \<lparr>StatusCode = 200, Body = Inl ''unexpected EOF''\<rparr>) (\<lambda>n. Inr n) (\<lambda>n. None))
            exampleScanner exampleWorld = Some (Some (External ''unexpected EOF''), exampleScanner, w')
      \<and> scans (events w') = []
      \<and> posts (events w') = [(buildURL exampleScanner ''nextimage'', [], [])]"
  using unreadable_body_fails_request
    [of "exampleEnv (\<lambda>n. Inr \<lparr>StatusCode = 200, Body = Inl ''unexpected EOF''\<rparr>) (\<lambda>n. Inr n) (\<lambda>n. None)"
      exampleWorld exampleScanner "\<lparr>StatusCode = 200, Body = Inl ''unexpected EOF''\<rparr>" "''unexpected EOF''"]
  by auto

text \<open>
  C4, as the code has it. On a transport error \<open>requestScanJob\<close> returns the error,
  records the error metric \<open>unable to POST get next image\<close> and logs. On a response
  whose status is not 200 it returns an error and logs, and the metric it records is
  the HTTP outcome (path and status code), not an error metric. In both cases the
  cycle returns the error with the Scanner unchanged, having run no scan and no
  download and sent no POST but the request.
\<close>

theorem failed_request_skips_tick:
  fixes env :: "('i, 'p, 'c) collaborators"
  shows "(\<forall>err. http_Post env (length (posts (events w))) (buildURL sc (NextImagePath env)) [] [] = Inl err \<longrightarrow>
           (\<exists>w1. requestScanJob env sc w = (Inl (External err), w1)
              \<and> scannerErrors (events w1) = scannerErrors (events w) @ [''unable to POST get next image'']
              \<and> httpStats (events w1) = httpStats (events w)
              \<and> logs (events w1) = logs (events w) @ [LogError ''unable to POST to %s: %s''])
         \<and> (\<exists>w'. requestAndRunScanJob env sc w = Some (Some (External err), sc, w')
              \<and> scans (events w') = scans (events w)
              \<and> downloads (events w') = downloads (events w)
              \<and> posts (events w') = posts (events w) @ [(buildURL sc (NextImagePath env), [], [])]))
       \<and> (\<forall>resp. http_Post env (length (posts (events w))) (buildURL sc (NextImagePath env)) [] [] = Inr resp
                  \<and> StatusCode resp \<noteq> 200 \<longrightarrow>
           (\<exists>w1. requestScanJob env sc w
                    = (Inl (StatusCodeError (buildURL sc (NextImagePath env)) (StatusCode resp)), w1)
              \<and> scannerErrors (events w1) = scannerErrors (events w)
              \<and> httpStats (events w1) = httpStats (events w) @ [(NextImagePath env, StatusCode resp)]
              \<and> logs (events w1) = logs (events w)
                    @ [LogError ''http POST request to %s failed with status code %d''])
         \<and> (\<exists>w'. requestAndRunScanJob env sc w
                    = Some (Some (StatusCodeError (buildURL sc (NextImagePath env)) (StatusCode resp)), sc, w')
              \<and> scans (events w') = scans (events w)
              \<and> downloads (events w') = downloads (events w)
              \<and> posts (events w') = posts (events w) @ [(buildURL sc (NextImagePath env), [], [])]))"
  by (simp add: requestScanJob_def requestAndRunScanJob_def Let_def)

theorem failed_request_skips_tick_witness:
  "(\<exists>w1. requestScanJob (exampleEnv (\<lambda>n. status 500 []) (\<lambda>n. Inr n) (\<lambda>n. None)) exampleScanner exampleWorld
            = (Inl (StatusCodeError (buildURL exampleScanner ''nextimage'') 500), w1)
       \<and> scannerErrors (events w1) = []
       \<and> httpStats (events w1) = [(''nextimage'', 500)])
   \<and> (\<exists>w1. requestScanJob (exampleEnv (\<lambda>n. Inl ''connection refused'') (\<lambda>n. Inr n) (\<lambda>n. None))
              exampleScanner exampleWorld
            = (Inl (External ''connection refused''), w1)
       \<and> scannerErrors (events w1) = [''unable to POST get next image'']
       \<and> httpStats (events w1) = [])"
  using failed_request_skips_tick [of "exampleEnv (\<lambda>n. status 500 []) (\<lambda>n. Inr n) (\<lambda>n. None)"
      exampleWorld exampleScanner]
    failed_request_skips_tick [of "exampleEnv (\<lambda>n. Inl ''connection refused'') (\<lambda>n. Inr n) (\<lambda>n. None)"
      exampleWorld exampleScanner]
  by (auto simp: status_def)

theorem status_500_records_no_scanner_error:
  "fst (requestScanJob (exampleEnv (\<lambda>n. status 500 []) (\<lambda>n. Inr n) (\<lambda>n. None)) exampleScanner exampleWorld)
     = Inl (StatusCodeError (buildURL exampleScanner ''nextimage'') 500)
   \<and> scannerErrors (events (snd (requestScanJob (exampleEnv (\<lambda>n. status 500 []) (\<lambda>n. Inr n) (\<lambda>n. None))
        exampleScanner exampleWorld))) = []
   \<and> httpStats (events (snd (requestScanJob (exampleEnv (\<lambda>n. status 500 []) (\<lambda>n. Inr n) (\<lambda>n. None))
        exampleScanner exampleWorld))) = [(''nextimage'', 500)]"
  by (simp add: requestScanJob_def Let_def status_def)

subsection \<open>Reporting a finished job\<close>

lemma buildURL_stop [simp]: "buildURL (sc\<lparr>stop := s\<rparr>) path = buildURL sc path"
  by (simp add: buildURL_def)

lemma finishScan_loop_never:
  fixes env :: "('i, 'p, 'c) collaborators"
  assumes "\<forall>k. \<not> accepted env url b (length (posts (events w)) + k)"
  shows "finishScan_loop env url b d w = None"
proof (cases "finishScan_loop env url b d w")
  case None
  then show ?thesis .
next
  case (Some w')
  from finishScan_loop_returns_accepted [OF Some] assms show ?thesis by blast
qed

lemma finishScan_loop_returns:
  fixes env :: "('i, 'p, 'c) collaborators"
  assumes "finishScan_loop env url b d w = Some w'"
  shows "\<exists>k es. accepted env url b (length (posts (events w)) + k)
           \<and> (\<forall>j<k. \<not> accepted env url b (length (posts (events w)) + j))
           \<and> w' = emit es w
           \<and> posts es = replicate (Suc k) (url, ''application/json'', b) \<and> quiet es"
proof -
  let ?A = "\<lambda>k. accepted env url b (length (posts (events w)) + k)"
  from finishScan_loop_returns_accepted [OF assms] obtain k0 where "?A k0" by blast
  define k where "k = (LEAST k. ?A k)"
  have a: "?A k" unfolding k_def using \<open>?A k0\<close> by (rule LeastI)
  have b: "\<forall>j<k. \<not> ?A j" unfolding k_def using not_less_Least by blast
  from finishScan_loop_first_200 [OF a b, of d] assms show ?thesis
    using a b by auto
qed

text \<open>
  C1. For a report that \<open>json.Marshal\<close> serialises, \<open>finishScan\<close> keeps POSTing the
  same body to the finished-scan URL until an attempt is answered with 200:
  \<^item> if the first 200 comes at the attempt number \<open>k\<close> (counted from 0; every earlier
    attempt was a transport error or another status), the call returns nil after
    exactly \<open>k + 1\<close> POSTs, and no timer event stands between the attempts;
  \<^item> if no attempt is ever answered with 200, the call does not return;
  \<^item> whenever the call returns, it returns nil and the last of its POSTs is the first
    one answered with 200;
  \<^item> the stop channel has no influence on the call.
  The witness is the sequence of responses 500, 500, 200: three POSTs, then success.
\<close>

theorem finishScan_retries_until_200:
  fixes env :: "('i, 'p, 'c) collaborators"
  assumes "json_Marshal env results = Inr jsonBytes"
  shows "(\<forall>k. accepted env (buildURL sc (FinishedScanPath env)) jsonBytes (length (posts (events w)) + k)
              \<and> (\<forall>j<k. \<not> accepted env (buildURL sc (FinishedScanPath env)) jsonBytes
                            (length (posts (events w)) + j)) \<longrightarrow>
            (\<exists>es. finishScan env sc results w = Some (None, emit es w)
               \<and> posts es = replicate (Suc k)
                    (buildURL sc (FinishedScanPath env), ''application/json'', jsonBytes)
               \<and> ticks es = []))
       \<and> ((\<forall>k. \<not> accepted env (buildURL sc (FinishedScanPath env)) jsonBytes
                    (length (posts (events w)) + k)) \<longrightarrow>
            finishScan env sc results w = None)
       \<and> (\<forall>r w'. finishScan env sc results w = Some (r, w') \<longrightarrow>
            r = None
            \<and> (\<exists>k. accepted env (buildURL sc (FinishedScanPath env)) jsonBytes
                       (length (posts (events w)) + k)
                 \<and> (\<forall>j<k. \<not> accepted env (buildURL sc (FinishedScanPath env)) jsonBytes
                               (length (posts (events w)) + j))
                 \<and> posts (events w') = posts (events w) @ replicate (Suc k)
                      (buildURL sc (FinishedScanPath env), ''application/json'', jsonBytes)
                 \<and> ticks (events w') = ticks (events w)))
       \<and> finishScan env (sc\<lparr>stop := s\<rparr>) results w = finishScan env sc results w"
proof (intro conjI allI impI)
  let ?url = "buildURL sc (FinishedScanPath env)"
  let ?w0 = "emit [LogDebug ''about to send over json text for finishing a job: %s''] w"
  have fs: "finishScan env sc results w = map_option (Pair None) (finishScan_loop env ?url jsonBytes [] ?w0)"
    using assms by (simp add: finishScan_def)
  have n: "length (posts (events ?w0)) = length (posts (events w))" by simp
  {
    fix k
    assume h: "accepted env ?url jsonBytes (length (posts (events w)) + k)
              \<and> (\<forall>j<k. \<not> accepted env ?url jsonBytes (length (posts (events w)) + j))"
    then have a: "accepted env ?url jsonBytes (length (posts (events ?w0)) + k)"
      and b: "\<forall>j<k. \<not> accepted env ?url jsonBytes (length (posts (events ?w0)) + j)"
      by simp_all
    from finishScan_loop_first_200 [OF a b, of "[]"] obtain es where
      l: "finishScan_loop env ?url jsonBytes [] ?w0 = Some (emit es ?w0)"
      and p: "posts es = replicate (Suc k) (?url, ''application/json'', jsonBytes)"
      and q: "quiet es" by blast
    let ?es = "LogDebug ''about to send over json text for finishing a job: %s'' # es"
    have "finishScan env sc results w = Some (None, emit ?es w)" using fs l by simp
    moreover have "posts ?es = replicate (Suc k) (?url, ''application/json'', jsonBytes)"
      using p by simp
    moreover have "ticks ?es = []" using q by (simp add: quiet_def)
    ultimately show "\<exists>es. finishScan env sc results w = Some (None, emit es w)
               \<and> posts es = replicate (Suc k) (?url, ''application/json'', jsonBytes)
               \<and> ticks es = []" by blast
  }
  {
    assume "\<forall>k. \<not> accepted env ?url jsonBytes (length (posts (events w)) + k)"
    then have "\<forall>k. \<not> accepted env ?url jsonBytes (length (posts (events ?w0)) + k)" by simp
    from finishScan_loop_never [OF this] show "finishScan env sc results w = None"
      using fs by simp
  }
  {
    fix r w'
    assume r: "finishScan env sc results w = Some (r, w')"
    with fs have "map_option (Pair None) (finishScan_loop env ?url jsonBytes [] ?w0) = Some (r, w')"
      by simp
    then have rl: "r = None \<and> finishScan_loop env ?url jsonBytes [] ?w0 = Some w'"
      by (cases "finishScan_loop env ?url jsonBytes [] ?w0") auto
    then show "r = None" by simp
    from rl have "finishScan_loop env ?url jsonBytes [] ?w0 = Some w'" by simp
    from finishScan_loop_returns [OF this] obtain k es where
      "accepted env ?url jsonBytes (length (posts (events ?w0)) + k)"
      "\<forall>j<k. \<not> accepted env ?url jsonBytes (length (posts (events ?w0)) + j)"
      "w' = emit es ?w0" "posts es = replicate (Suc k) (?url, ''application/json'', jsonBytes)"
      "quiet es" by blast
    then show "\<exists>k. accepted env ?url jsonBytes (length (posts (events w)) + k)
                 \<and> (\<forall>j<k. \<not> accepted env ?url jsonBytes (length (posts (events w)) + j))
                 \<and> posts (events w') = posts (events w) @ replicate (Suc k)
                      (?url, ''application/json'', jsonBytes)
                 \<and> ticks (events w') = ticks (events w)"
      by (intro exI [of _ k]) (simp add: quiet_def)
  }
  show "finishScan env (sc\<lparr>stop := s\<rparr>) results w = finishScan env sc results w"
    by (simp add: finishScan_def)
qed

theorem finishScan_retries_until_200_witness:
  "\<exists>w'. finishScan (exampleEnv (\<lambda>n. if n < 2 then status 500 [] else status 200 []) (\<lambda>n. Inr n) (\<lambda>n. None))
           exampleScanner (finishedJobFor exampleImage None) exampleWorld = Some (None, w')
      \<and> posts (events w')
          = [(buildURL exampleScanner ''finishedscan'', ''application/json'', ''|s1''),
             (buildURL exampleScanner ''finishedscan'', ''application/json'', ''|s1''),
             (buildURL exampleScanner ''finishedscan'', ''application/json'', ''|s1'')]"
proof -
  let ?env = "exampleEnv (\<lambda>n. if n < 2 then status 500 [] else status 200 []) (\<lambda>n. Inr n) (\<lambda>n. None)"
  let ?url = "buildURL exampleScanner (FinishedScanPath ?env)"
  have m: "json_Marshal ?env (finishedJobFor exampleImage None) = Inr ''|s1''"
    by (simp add: finishedJobFor_def exampleImage_def)
  have a: "accepted ?env ?url ''|s1'' (length (posts (events exampleWorld)) + 2)"
    by (simp add: accepted_def status_def)
  have b: "\<forall>j<2. \<not> accepted ?env ?url ''|s1'' (length (posts (events exampleWorld)) + j)"
    by (simp add: accepted_def status_def)
  from finishScan_retries_until_200 [OF m, of exampleScanner exampleWorld] a b
  obtain es where "finishScan ?env exampleScanner (finishedJobFor exampleImage None) exampleWorld
                     = Some (None, emit es exampleWorld)"
    and "posts es = replicate (Suc 2) (?url, ''application/json'', ''|s1'')"
    by blast
  then show ?thesis
    by (intro exI [of _ "emit es exampleWorld"]) (simp add: numeral_2_eq_2)
qed

subsection \<open>What one cycle does to the world and the Scanner\<close>

lemma requestScanJob_effect:
  fixes env :: "('i, 'p, 'c) collaborators"
  shows "\<exists>es. snd (requestScanJob env sc w) = emit es w
           \<and> posts es = [(buildURL sc (NextImagePath env), [], [])] \<and> quiet es"
  by (auto simp: requestScanJob_def Let_def split: sum.splits)

lemma downloadScanner_effect:
  fixes env :: "('i, 'p, 'c) collaborators"
  shows "\<exists>es. snd (downloadScanner env sc hubURL w) = emit es w
           \<and> posts es = [] \<and> scans es = [] \<and> ticks es = []
           \<and> downloads es = [(hubURL, Hub_User (config sc), hubPassword sc, Hub_Port (config sc),
                 wrap64 (wrap64 (Hub_ClientTimeoutSeconds (config sc)) * Second))]"
  by (auto simp: downloadScanner_def Let_def split: sum.splits)

lemma finishScan_effect:
  fixes env :: "('i, 'p, 'c) collaborators"
  assumes "finishScan env sc results w = Some (r, w')"
  shows "\<exists>es. w' = emit es w \<and> quiet es"
proof (cases "json_Marshal env results")
  case (Inl err)
  with assms have "w' = emit [RecordScannerError ''unable to marshal json for finished job'',
                      LogError ''unable to marshal json for finished job: %s''] w"
    by (simp add: finishScan_def)
  then show ?thesis
    by (intro exI conjI, assumption) simp
next
  case (Inr b)
  let ?w0 = "emit [LogDebug ''about to send over json text for finishing a job: %s''] w"
  from assms Inr have "map_option (Pair None)
      (finishScan_loop env (buildURL sc (FinishedScanPath env)) b [] ?w0) = Some (r, w')"
    by (simp add: finishScan_def)
  then have "finishScan_loop env (buildURL sc (FinishedScanPath env)) b [] ?w0 = Some w'"
    by (cases "finishScan_loop env (buildURL sc (FinishedScanPath env)) b [] ?w0") auto
  from finishScan_loop_returns [OF this] obtain es where "w' = emit es ?w0" "quiet es"
    by blast
  then have "w' = emit (LogDebug ''about to send over json text for finishing a job: %s'' # es) w
             \<and> quiet (LogDebug ''about to send over json text for finishing a job: %s'' # es)"
    by simp
  then show ?thesis by blast
qed

lemma runScanJob_effect:
  fixes env :: "('i, 'p, 'c) collaborators"
  assumes "runScanJob env sc client img w = Some (r, w')"
  shows "\<exists>es. w' = emit es w \<and> ticks es = [] \<and> downloads es = [] \<and> newClients es = []
           \<and> scans es = [NewScanJob (Repository img) (Sha img) (HubURL img) (HubProjectName img)
                  (HubProjectVersionName img) (HubScanName img)]"
proof -
  let ?job = "NewScanJob (Repository img) (Sha img) (HubURL img) (HubProjectName img)
                  (HubProjectVersionName img) (HubScanName img)"
  let ?w0 = "emit [CallScan ?job, LogInfo ''about to finish job, going to send over %+v''] w"
  let ?rep = "finishedJobFor img (Scan env (length (scans (events w))) client ?job)"
  from assms obtain e w1 where f: "finishScan env sc ?rep ?w0 = Some (e, w1)"
    and w': "w' = w1 \<or> w' = emit [LogError ''unable to finish scan job: %s''] w1"
    by (auto simp: runScanJob_def Let_def split: option.splits)
  from finishScan_effect [OF f] obtain es where es: "w1 = emit es ?w0" "quiet es" by blast
  let ?pre = "[CallScan ?job, LogInfo ''about to finish job, going to send over %+v'']"
  from w' show ?thesis
  proof
    assume "w' = w1"
    with es have "w' = emit (?pre @ es) w \<and> ticks (?pre @ es) = [] \<and> downloads (?pre @ es) = []
        \<and> newClients (?pre @ es) = [] \<and> scans (?pre @ es) = [?job]"
      by (simp add: quiet_def)
    then show ?thesis by blast
  next
    let ?post = "[LogError ''unable to finish scan job: %s'']"
    assume "w' = emit ?post w1"
    with es have "w' = emit (?pre @ es @ ?post) w \<and> ticks (?pre @ es @ ?post) = []
        \<and> downloads (?pre @ es @ ?post) = [] \<and> newClients (?pre @ es @ ?post) = []
        \<and> scans (?pre @ es @ ?post) = [?job]"
      by (simp add: quiet_def)
    then show ?thesis by blast
  qed
qed



lemma cycle_shape_quiet:
  assumes "w' = emit es w" and "ticks es = [] \<and> downloads es = [] \<and> newClients es = []"
    and "sc' = sc"
  shows "\<exists>es. w' = emit es w \<and> ticks es = []
           \<and> (sc' = sc \<or> (scanClient sc = None \<and> (\<exists>c. sc' = sc\<lparr>scanClient := Some c\<rparr>)))
           \<and> (scanClient sc \<noteq> None \<longrightarrow> downloads es = [] \<and> newClients es = [])
           \<and> list_all (\<lambda>d. download_password d = hubPassword sc) (downloads es)"
  using assms by (intro exI [of _ es]) simp

lemma cycle_shape_download:
  assumes "w' = emit es w" and "ticks es = []"
    and "list_all (\<lambda>d. download_password d = hubPassword sc) (downloads es)"
    and "scanClient sc = None"
    and "sc' = sc \<or> (\<exists>c. sc' = sc\<lparr>scanClient := Some c\<rparr>)"
  shows "\<exists>es. w' = emit es w \<and> ticks es = []
           \<and> (sc' = sc \<or> (scanClient sc = None \<and> (\<exists>c. sc' = sc\<lparr>scanClient := Some c\<rparr>)))
           \<and> (scanClient sc \<noteq> None \<longrightarrow> downloads es = [] \<and> newClients es = [])
           \<and> list_all (\<lambda>d. download_password d = hubPassword sc) (downloads es)"
  using assms by (intro exI [of _ es]) simp

lemma cycle_effect:
  fixes env :: "('i, 'p, 'c) collaborators"
  assumes "requestAndRunScanJob env sc w = Some (r, sc', w')"
  shows "\<exists>es. w' = emit es w \<and> ticks es = []
           \<and> (sc' = sc \<or> (scanClient sc = None \<and> (\<exists>c. sc' = sc\<lparr>scanClient := Some c\<rparr>)))
           \<and> (scanClient sc \<noteq> None \<longrightarrow> downloads es = [] \<and> newClients es = [])
           \<and> list_all (\<lambda>d. download_password d = hubPassword sc) (downloads es)"
proof -
  let ?w0 = "emit [LogDebug ''requesting scan job''] w"
  obtain x w1 where rq: "requestScanJob env sc ?w0 = (x, w1)" by (cases "requestScanJob env sc ?w0")
  from requestScanJob_effect [of env sc ?w0] rq obtain es1 where
    w1: "w1 = emit es1 ?w0" and q1: "quiet es1" by auto
  let ?e1 = "LogDebug ''requesting scan job'' # es1"
  have w1': "w1 = emit ?e1 w" using w1 by simp
  have q1': "quiet ?e1" using q1 by simp
  show ?thesis
  proof (cases x)
    case (Inl err)
    with assms rq have "sc' = sc" "w' = emit [LogError ''unable to request scan job: %s''] w1"
      by (simp_all add: requestAndRunScanJob_def)
    with w1' q1' have "w' = emit (?e1 @ [LogError ''unable to request scan job: %s'']) w"
      and "ticks (?e1 @ [LogError ''unable to request scan job: %s'']) = [] \<and> downloads (?e1 @ [LogError ''unable to request scan job: %s'']) = []
          \<and> newClients (?e1 @ [LogError ''unable to request scan job: %s'']) = []" by (simp_all add: quiet_def)
    then show ?thesis using \<open>sc' = sc\<close> by (rule cycle_shape_quiet)
  next
    case (Inr job)
    show ?thesis
    proof (cases job)
      case None
      with Inr assms rq have "sc' = sc" "w' = emit [LogDebug ''requested scan job, got nil''] w1"
        by (simp_all add: requestAndRunScanJob_def)
      with w1' q1' have "w' = emit (?e1 @ [LogDebug ''requested scan job, got nil'']) w"
        and "ticks (?e1 @ [LogDebug ''requested scan job, got nil'']) = [] \<and> downloads (?e1 @ [LogDebug ''requested scan job, got nil'']) = []
          \<and> newClients (?e1 @ [LogDebug ''requested scan job, got nil'']) = []" by (simp_all add: quiet_def)
      then show ?thesis using \<open>sc' = sc\<close> by (rule cycle_shape_quiet)
    next
      case (Some img)
      let ?w2 = "emit [LogInfo ''processing scan job %+v''] w1"
      let ?e2 = "?e1 @ [LogInfo ''processing scan job %+v'']"
      have w2: "?w2 = emit ?e2 w" using w1' by simp
      have q2: "quiet ?e2" using q1' by simp
      show ?thesis
      proof (cases "scanClient sc")
        case (Some client)
        with \<open>job = Some img\<close> Inr assms rq
        have rs: "runScanJob env sc client img ?w2 = Some (r, w')" and "sc' = sc"
          by (auto simp: requestAndRunScanJob_def)
        from runScanJob_effect [OF rs] obtain es3 where
          "w' = emit es3 ?w2" "ticks es3 = []" "downloads es3 = []" "newClients es3 = []" by blast
        with w2 q2 have "w' = emit (?e2 @ es3) w"
          and "ticks (?e2 @ es3) = [] \<and> downloads (?e2 @ es3) = [] \<and> newClients (?e2 @ es3) = []"
          by (simp_all add: quiet_def)
        then show ?thesis using \<open>sc' = sc\<close> by (rule cycle_shape_quiet)
      next
        case None
        obtain y w3 where dl: "downloadScanner env sc (HubURL img) ?w2 = (y, w3)"
          by (cases "downloadScanner env sc (HubURL img) ?w2")
        from downloadScanner_effect [of env sc "HubURL img" ?w2] dl obtain es3 where
          w3: "w3 = emit es3 ?w2" and t3: "ticks es3 = []"
          and d3: "downloads es3 = [(HubURL img, Hub_User (config sc), hubPassword sc, Hub_Port (config sc),
                 wrap64 (wrap64 (Hub_ClientTimeoutSeconds (config sc)) * Second))]"
          by auto
        have w3': "w3 = emit (?e2 @ es3) w" using w3 w2 by simp
        have p3: "ticks (?e2 @ es3) = [] \<and> list_all (\<lambda>d. download_password d = hubPassword sc) (downloads (?e2 @ es3))"
          using t3 d3 q2 by (simp add: quiet_def download_password_def)
        show ?thesis
        proof (cases y)
          case (Inl err)
          with None \<open>job = Some img\<close> Inr assms rq dl
          have "sc' = sc" "w' = emit [LogError ''unable to download scan client from %s: %s''] w3"
            by (simp_all add: requestAndRunScanJob_def)
          with w3' p3 have "w' = emit (?e2 @ es3 @ [LogError ''unable to download scan client from %s: %s'']) w"
            and "ticks (?e2 @ es3 @ [LogError ''unable to download scan client from %s: %s'']) = []"
            and "list_all (\<lambda>d. download_password d = hubPassword sc)
                   (downloads (?e2 @ es3 @ [LogError ''unable to download scan client from %s: %s'']))"
            by simp_all
          then show ?thesis using None \<open>sc' = sc\<close> by (rule cycle_shape_download [OF _ _ _ _ disjI1])
        next
          case (Inr client)
          let ?sc1 = "sc\<lparr>scanClient := Some client\<rparr>"
          from Inr None \<open>job = Some img\<close> \<open>x = Inr job\<close> assms rq dl
          have rs: "runScanJob env ?sc1 client img w3 = Some (r, w')" and sc1: "sc' = ?sc1"
            by (auto simp: requestAndRunScanJob_def Let_def)
          from runScanJob_effect [OF rs] obtain es4 where
            "w' = emit es4 w3" "ticks es4 = []" "downloads es4 = []" by blast
          with w3' p3 have "w' = emit (?e2 @ es3 @ es4) w" and "ticks (?e2 @ es3 @ es4) = []"
            and "list_all (\<lambda>d. download_password d = hubPassword sc) (downloads (?e2 @ es3 @ es4))"
            by simp_all
          moreover from sc1 have "sc' = sc \<or> (\<exists>c. sc' = sc\<lparr>scanClient := Some c\<rparr>)" by blast
          ultimately show ?thesis using None by (intro cycle_shape_download)
        qed
      qed
    qed
  qed
qed

subsection \<open>The polling loop\<close>


lemma requestLoop_effect:
  fixes env :: "('i, 'p, 'c) collaborators"
  assumes "requestLoop env sc w = Some y"
  shows "stop (fst y) = stop sc \<and> hubPassword (fst y) = hubPassword sc
       \<and> stop sc (length (ticks (events (snd y))))
       \<and> (scanClient sc \<noteq> None \<longrightarrow>
            fst y = sc \<and> downloads (events (snd y)) = downloads (events w)
            \<and> newClients (events (snd y)) = newClients (events w))
       \<and> (\<exists>ds. downloads (events (snd y)) = downloads (events w) @ ds
            \<and> list_all (\<lambda>d. download_password d = hubPassword sc) ds)"
  using assms
proof (induction rule: requestLoop.raw_induct [rotated 1, consumes 1, case_names step])
  case (step loop env sc w y)
  show ?case
  proof (cases "stop sc (length (ticks (events w)))")
    case True
    with step(2) have "y = (sc, w)" by simp
    with True show ?thesis by simp
  next
    case False
    let ?w0 = "emit [TimerFired requestScanJobPause] w"
    from step(2) False obtain r sc1 w1 w2 where
      cy: "requestAndRunScanJob env sc ?w0 = Some (r, sc1, w1)"
      and l: "loop env sc1 w2 = Some y"
      and w2: "w2 = w1 \<or> w2 = emit [LogError ''unable to run requestAndRunScanJob: %s''] w1"
      by (auto split: option.splits)
    from cycle_effect [OF cy] obtain es where
      w1: "w1 = emit es ?w0"
      and sc1: "sc1 = sc \<or> (scanClient sc = None \<and> (\<exists>c. sc1 = sc\<lparr>scanClient := Some c\<rparr>))"
      and cached: "scanClient sc \<noteq> None \<longrightarrow> downloads es = [] \<and> newClients es = []"
      and pw: "list_all (\<lambda>d. download_password d = hubPassword sc) (downloads es)"
      by blast
    from sc1 have same: "stop sc1 = stop sc" "hubPassword sc1 = hubPassword sc"
      "scanClient sc \<noteq> None \<longrightarrow> sc1 = sc"
      by auto
    from w2 w1 have d2: "downloads (events w2) = downloads (events w) @ downloads es"
      and n2: "newClients (events w2) = newClients (events w) @ newClients es"
      by auto
    note ih = step(1) [OF l]
    from ih same have a: "stop (fst y) = stop sc \<and> hubPassword (fst y) = hubPassword sc
        \<and> stop sc (length (ticks (events (snd y))))" by simp
    from ih same cached d2 n2 have b: "scanClient sc \<noteq> None \<longrightarrow>
            fst y = sc \<and> downloads (events (snd y)) = downloads (events w)
            \<and> newClients (events (snd y)) = newClients (events w)" by auto
    from ih obtain ds where "downloads (events (snd y)) = downloads (events w2) @ ds"
      and "list_all (\<lambda>d. download_password d = hubPassword sc1) ds" by blast
    with d2 pw same have "downloads (events (snd y)) = downloads (events w) @ (downloads es @ ds)
        \<and> list_all (\<lambda>d. download_password d = hubPassword sc) (downloads es @ ds)" by simp
    then have c: "\<exists>ds. downloads (events (snd y)) = downloads (events w) @ ds
            \<and> list_all (\<lambda>d. download_password d = hubPassword sc) ds" by blast
    from a b c show ?thesis by blast
  qed
qed

lemma requestScanJob_stop [simp]:
  fixes env :: "('i, 'p, 'c) collaborators"
  shows "requestScanJob env (sc\<lparr>stop := s\<rparr>) w = requestScanJob env sc w"
  by (simp add: requestScanJob_def)

lemma downloadScanner_stop [simp]:
  fixes env :: "('i, 'p, 'c) collaborators"
  shows "downloadScanner env (sc\<lparr>stop := s\<rparr>) u w = downloadScanner env sc u w"
  by (simp add: downloadScanner_def)

lemma finishScan_stop [simp]:
  fixes env :: "('i, 'p, 'c) collaborators"
  shows "finishScan env (sc\<lparr>stop := s\<rparr>) rep w = finishScan env sc rep w"
  by (simp add: finishScan_def)

lemma runScanJob_stop [simp]:
  fixes env :: "('i, 'p, 'c) collaborators"
  shows "runScanJob env (sc\<lparr>stop := s\<rparr>) c img w = runScanJob env sc c img w"
  by (simp add: runScanJob_def)






subsection \<open>Provisioning\<close>

lemma buildURL_scanClient [simp]: "buildURL (sc\<lparr>scanClient := c\<rparr>) path = buildURL sc path"
  by (simp add: buildURL_def)

lemma cycle_provision_failed:
  fixes env :: "('i, 'p, 'c) collaborators"
  assumes "scanClient sc = None"
    and "requestScanJob env sc (emit [LogDebug ''requesting scan job''] w) = (Inr (Some img), w1)"
    and "downloadScanner env sc (HubURL img) (emit [LogInfo ''processing scan job %+v''] w1) = (Inl err, w2)"
  shows "requestAndRunScanJob env sc w
           = Some (Some err, sc, emit [LogError ''unable to download scan client from %s: %s''] w2)"
  using assms by (simp add: requestAndRunScanJob_def)


lemma provisioning_trace:
  fixes env :: "('i, 'p, 'c) collaborators"
  assumes "requestScanJob env sc (emit [LogDebug ''requesting scan job''] w) = (x, w1)"
    and "downloadScanner env sc hubURL (emit [LogInfo ''processing scan job %+v''] w1) = (y, w2)"
  shows "posts (events w2) = posts (events w) @ [(buildURL sc (NextImagePath env), [], [])]
       \<and> scans (events w2) = scans (events w)
       \<and> downloads (events w2) = downloads (events w)
            @ [(hubURL, Hub_User (config sc), hubPassword sc, Hub_Port (config sc),
                wrap64 (wrap64 (Hub_ClientTimeoutSeconds (config sc)) * Second))]"
proof -
  from requestScanJob_effect [of env sc "emit [LogDebug ''requesting scan job''] w"] assms(1)
  obtain es1 where "w1 = emit es1 (emit [LogDebug ''requesting scan job''] w)"
    and "posts es1 = [(buildURL sc (NextImagePath env), [], [])]" and "quiet es1" by auto
  moreover from downloadScanner_effect [of env sc hubURL "emit [LogInfo ''processing scan job %+v''] w1"]
    assms(2)
  obtain es2 where "w2 = emit es2 (emit [LogInfo ''processing scan job %+v''] w1)"
    and "posts es2 = []" and "scans es2 = []"
    and "downloads es2 = [(hubURL, Hub_User (config sc), hubPassword sc, Hub_Port (config sc),
                wrap64 (wrap64 (Hub_ClientTimeoutSeconds (config sc)) * Second))]" by auto
  ultimately show ?thesis by (simp add: quiet_def)
qed

text \<open>
  C3. When a job arrives, no scan client is held and \<open>downloadScanner\<close> fails, the
  cycle returns the provisioning error and the Scanner unchanged; no scan has been
  run, and the only POST sent is the request for the job, so no report goes to the
  coordinator. In the loop the error is logged and the next wait begins with the same
  Scanner.
\<close>

theorem failed_provisioning_drops_job:
  fixes env :: "('i, 'p, 'c) collaborators"
  assumes "scanClient sc = None"
    and "requestScanJob env sc (emit [LogDebug ''requesting scan job''] w) = (Inr (Some img), w1)"
    and "downloadScanner env sc (HubURL img) (emit [LogInfo ''processing scan job %+v''] w1) = (Inl err, w2)"
  shows "\<exists>w'. requestAndRunScanJob env sc w = Some (Some err, sc, w')
           \<and> scans (events w') = scans (events w)
           \<and> posts (events w') = posts (events w) @ [(buildURL sc (NextImagePath env), [], [])]
           \<and> (\<forall>w0. w = emit [TimerFired requestScanJobPause] w0
                   \<and> \<not> stop sc (length (ticks (events w0))) \<longrightarrow>
                 requestLoop env sc w0
                   = requestLoop env sc (emit [LogError ''unable to run requestAndRunScanJob: %s''] w'))"
proof -
  let ?w' = "emit [LogError ''unable to download scan client from %s: %s''] w2"
  have cy: "requestAndRunScanJob env sc w = Some (Some err, sc, ?w')"
    using assms by (rule cycle_provision_failed)
  from provisioning_trace [OF assms(2) assms(3)]
  have tr: "scans (events ?w') = scans (events w)
         \<and> posts (events ?w') = posts (events w) @ [(buildURL sc (NextImagePath env), [], [])]"
    by simp
  have next_tick: "\<forall>w0. w = emit [TimerFired requestScanJobPause] w0
                   \<and> \<not> stop sc (length (ticks (events w0))) \<longrightarrow>
                 requestLoop env sc w0
                   = requestLoop env sc (emit [LogError ''unable to run requestAndRunScanJob: %s''] ?w')"
  proof (intro allI impI)
    fix w0
    assume h: "w = emit [TimerFired requestScanJobPause] w0 \<and> \<not> stop sc (length (ticks (events w0)))"
    with cy have "requestAndRunScanJob env sc (emit [TimerFired requestScanJobPause] w0)
                    = Some (Some err, sc, ?w')" by simp
    with h show "requestLoop env sc w0
                   = requestLoop env sc (emit [LogError ''unable to run requestAndRunScanJob: %s''] ?w')"
      by (subst requestLoop.simps) simp
  qed
  from cy tr next_tick show ?thesis by blast
qed

theorem failed_provisioning_drops_job_witness:
  "\<exists>w'. requestAndRunScanJob (exampleEnv (\<lambda>n. status 200 ''job'') (\<lambda>n. Inl ''download failed'') (\<lambda>n. None))
           exampleScanner exampleWorld
           = Some (Some (External ''download failed''), exampleScanner, w')
      \<and> scans (events w') = []
      \<and> posts (events w') = [(buildURL exampleScanner ''nextimage'', [], [])]"
proof -
  let ?env = "exampleEnv (\<lambda>n. status 200 ''job'') (\<lambda>n. Inl ''download failed'') (\<lambda>n. None)"
  obtain w1 where rq: "requestScanJob ?env exampleScanner (emit [LogDebug ''requesting scan job''] exampleWorld)
                         = (Inr (Some exampleImage), w1)"
    by (simp add: requestScanJob_def Let_def status_def)
  obtain w2 where dl: "downloadScanner ?env exampleScanner (HubURL exampleImage)
                         (emit [LogInfo ''processing scan job %+v''] w1)
                         = (Inl (External ''download failed''), w2)"
    by (simp add: downloadScanner_def Let_def)
  have none: "scanClient exampleScanner = None" by simp
  from failed_provisioning_drops_job [OF none rq dl] show ?thesis by auto
qed




subsection \<open>The credential\<close>

lemma emit_environ_update: "emit es (w\<lparr>environ := e\<rparr>) = (emit es w)\<lparr>environ := e\<rparr>"
  by (simp add: emit_def)

lemma downloadScanner_environ:
  fixes env :: "('i, 'p, 'c) collaborators"
  shows "downloadScanner env sc hubURL (w\<lparr>environ := e\<rparr>)
           = (fst (downloadScanner env sc hubURL w), (snd (downloadScanner env sc hubURL w))\<lparr>environ := e\<rparr>)"
  by (simp add: downloadScanner_def Let_def emit_environ_update split: sum.splits)

lemma NewScanner_password:
  assumes "NewScanner cfg stopCh w0 = (Inr sc, w1)"
  shows "os_LookupEnv (environ w0) (Hub_PasswordEnvVar cfg) = Some (hubPassword sc)"
  using assms by (auto simp: NewScanner_def Let_def split: option.splits sum.splits)

text \<open>
  C10. The credential is the value that \<open>os.LookupEnv\<close> returned when the Scanner was
  constructed. From any later world, whatever its process environment holds by then,
  every call of \<open>downloadScanClient\<close> made by a cycle, or by the whole loop, carries
  that value as its password, and the Scanner keeps it; \<open>downloadScanner\<close> does not
  read the process environment and only carries it along.
\<close>

theorem credential_read_once:
  fixes env :: "('i, 'p, 'c) collaborators"
  assumes "NewScanner cfg stopCh w0 = (Inr sc, w1)"
  shows "os_LookupEnv (environ w0) (Hub_PasswordEnvVar cfg) = Some (hubPassword sc)
       \<and> (\<forall>w r sc' w'. requestAndRunScanJob env sc w = Some (r, sc', w') \<longrightarrow>
            hubPassword sc' = hubPassword sc
            \<and> (\<exists>ds. downloads (events w') = downloads (events w) @ ds
                 \<and> list_all (\<lambda>d. Some (download_password d)
                                   = os_LookupEnv (environ w0) (Hub_PasswordEnvVar cfg)) ds))
       \<and> (\<forall>w sc' w'. requestLoop env sc w = Some (sc', w') \<longrightarrow>
            hubPassword sc' = hubPassword sc
            \<and> (\<exists>ds. downloads (events w') = downloads (events w) @ ds
                 \<and> list_all (\<lambda>d. Some (download_password d)
                                   = os_LookupEnv (environ w0) (Hub_PasswordEnvVar cfg)) ds))
       \<and> (\<forall>w hubURL e. downloadScanner env sc hubURL (w\<lparr>environ := e\<rparr>)
            = (fst (downloadScanner env sc hubURL w),
               (snd (downloadScanner env sc hubURL w))\<lparr>environ := e\<rparr>))"
proof (intro conjI)
  note pw = NewScanner_password [OF assms]
  show "os_LookupEnv (environ w0) (Hub_PasswordEnvVar cfg) = Some (hubPassword sc)" by (rule pw)
  show "\<forall>w r sc' w'. requestAndRunScanJob env sc w = Some (r, sc', w') \<longrightarrow>
            hubPassword sc' = hubPassword sc
            \<and> (\<exists>ds. downloads (events w') = downloads (events w) @ ds
                 \<and> list_all (\<lambda>d. Some (download_password d)
                                   = os_LookupEnv (environ w0) (Hub_PasswordEnvVar cfg)) ds)"
  proof (intro allI impI)
    fix w r sc' w'
    assume "requestAndRunScanJob env sc w = Some (r, sc', w')"
    from cycle_effect [OF this] obtain es where "w' = emit es w"
      and "sc' = sc \<or> (scanClient sc = None \<and> (\<exists>c. sc' = sc\<lparr>scanClient := Some c\<rparr>))"
      and "list_all (\<lambda>d. download_password d = hubPassword sc) (downloads es)" by blast
    then have "hubPassword sc' = hubPassword sc" and "downloads (events w') = downloads (events w) @ downloads es"
      and "list_all (\<lambda>d. Some (download_password d)
                                   = os_LookupEnv (environ w0) (Hub_PasswordEnvVar cfg)) (downloads es)"
      using pw by (auto simp: list_all_iff)
    then show "hubPassword sc' = hubPassword sc
            \<and> (\<exists>ds. downloads (events w') = downloads (events w) @ ds
                 \<and> list_all (\<lambda>d. Some (download_password d)
                                   = os_LookupEnv (environ w0) (Hub_PasswordEnvVar cfg)) ds)"
      by blast
  qed
  show "\<forall>w sc' w'. requestLoop env sc w = Some (sc', w') \<longrightarrow>
            hubPassword sc' = hubPassword sc
            \<and> (\<exists>ds. downloads (events w') = downloads (events w) @ ds
                 \<and> list_all (\<lambda>d. Some (download_password d)
                                   = os_LookupEnv (environ w0) (Hub_PasswordEnvVar cfg)) ds)"
  proof (intro allI impI)
    fix w sc' w'
    assume "requestLoop env sc w = Some (sc', w')"
    from requestLoop_effect [OF this] obtain ds where "hubPassword sc' = hubPassword sc"
      and "downloads (events w') = downloads (events w) @ ds"
      and "list_all (\<lambda>d. download_password d = hubPassword sc) ds" by auto
    then have "hubPassword sc' = hubPassword sc \<and> downloads (events w') = downloads (events w) @ ds
        \<and> list_all (\<lambda>d. Some (download_password d)
                                   = os_LookupEnv (environ w0) (Hub_PasswordEnvVar cfg)) ds"
      using pw by (simp add: list_all_iff)
    then show "hubPassword sc' = hubPassword sc
            \<and> (\<exists>ds. downloads (events w') = downloads (events w) @ ds
                 \<and> list_all (\<lambda>d. Some (download_password d)
                                   = os_LookupEnv (environ w0) (Hub_PasswordEnvVar cfg)) ds)"
      by blast
  qed
  show "\<forall>w hubURL e. downloadScanner env sc hubURL (w\<lparr>environ := e\<rparr>)
            = (fst (downloadScanner env sc hubURL w),
               (snd (downloadScanner env sc hubURL w))\<lparr>environ := e\<rparr>)"
    by (intro allI) (rule downloadScanner_environ)
qed

theorem credential_read_once_witness:
  "(NewScanner exampleConfig (\<lambda>n. False) exampleWorld :: (error + nat Scanner) \<times> world)
      = (Inr exampleScanner,
         \<lparr>environ = [''PCP_HUBUSERPASSWORD'' \<mapsto> ''blackduck'', ''BD_HUB_PASSWORD'' \<mapsto> ''blackduck''],
          events = [LogInfo ''instantiating Scanner with config %+v'']\<rparr>)
   \<and> map_option (\<lambda>(r, sc', w'). map download_password (downloads (events w')))
        (requestAndRunScanJob
           (exampleEnv (\<lambda>n. status 200 ''job'') (\<lambda>n. Inl ''download failed'') (\<lambda>n. None))
           exampleScanner
           \<lparr>environ = [''PCP_HUBUSERPASSWORD'' \<mapsto> ''changed''], events = []\<rparr>)
      = Some [''blackduck'']"
proof -
  let ?env = "exampleEnv (\<lambda>n. status 200 ''job'') (\<lambda>n. Inl ''download failed'') (\<lambda>n. None)"
  let ?w = "\<lparr>environ = [''PCP_HUBUSERPASSWORD'' \<mapsto> ''changed''], events = []\<rparr>"
  let ?w1 = "\<lparr>environ = [''PCP_HUBUSERPASSWORD'' \<mapsto> ''blackduck'', ''BD_HUB_PASSWORD'' \<mapsto> ''blackduck''],
          events = [LogInfo ''instantiating Scanner with config %+v'']\<rparr>"
  have new: "(NewScanner exampleConfig (\<lambda>n. False) exampleWorld :: (error + nat Scanner) \<times> world)
      = (Inr exampleScanner, ?w1)"
    by (simp add: NewScanner_def Let_def os_LookupEnv_def os_Setenv_def exampleConfig_def
        exampleScanner_def exampleWorld_def emit_def)
  obtain r sc' w' where cy: "requestAndRunScanJob ?env exampleScanner ?w = Some (r, sc', w')"
    and len: "length (downloads (events w')) = 1"
    by (simp add: requestAndRunScanJob_def requestScanJob_def downloadScanner_def Let_def status_def)
  from credential_read_once [OF new, of ?env] cy
  obtain ds where "downloads (events w') = downloads (events ?w) @ ds"
    and "list_all (\<lambda>d. Some (download_password d)
           = os_LookupEnv (environ exampleWorld) (Hub_PasswordEnvVar exampleConfig)) ds"
    by blast
  with len have "map download_password (downloads (events w')) = [''blackduck'']"
    by (cases ds) (simp_all add: os_LookupEnv_def exampleConfig_def)
  with cy new show ?thesis by simp
qed

subsection \<open>The report of a job\<close>





end
